theory Spec2Isabelle
  imports Complex_Main "HOL-Library.Word"
begin

section \<open>The State Document and the store\<close>

text \<open>
  The shared document lives under the path \<^verbatim>\<open>smartHomeState\<close> of a Firebase Realtime
  Database. Its children are the device booleans \<^verbatim>\<open>led1\<close>, \<^verbatim>\<open>led2\<close>, \<^verbatim>\<open>led3\<close>, \<^verbatim>\<open>tv\<close>,
  the string \<^verbatim>\<open>mode\<close>, the boolean \<^verbatim>\<open>kill\<close> and the object \<^verbatim>\<open>timer\<close> (or null).
  The Timer Record has the fields that \<^verbatim>\<open>executeTimer\<close> writes, each of the type it
  writes there.
  Times are integer milliseconds (\<^verbatim>\<open>Date.now()\<close>), durations whole seconds.
  Child keys are names the store accepts as one path segment: not empty and free of
  \<^verbatim>\<open>. # $ / [ ]\<close>; the known devices, \<^verbatim>\<open>mode\<close>, \<^verbatim>\<open>kill\<close> and \<^verbatim>\<open>timer\<close> are such names.
\<close>

record timer_record =
  timer_id :: string
  devices :: "string list"
  duration :: int
  action :: string
  startedAt :: int
  endsAt :: int
  active :: bool

datatype jval = JBool bool | JStr string | JTimer timer_record

text \<open>A document maps a child key to its value; an absent key reads as null.\<close>

type_synonym document = "string \<rightharpoonup> jval"

text \<open>JavaScript truthiness of what \<^verbatim>\<open>snap.val()\<close> returns.\<close>

fun truthy :: "jval option \<Rightarrow> bool" where
  "truthy None = False"
| "truthy (Some (JBool b)) = b"
| "truthy (Some (JStr s)) = (s \<noteq> [])"
| "truthy (Some (JTimer t)) = True"

text \<open>
  \<^verbatim>\<open>ref(key).set(v)\<close> replaces one child (null removes it);
  \<^verbatim>\<open>ref.update(updates)\<close> writes every key of the object \<^verbatim>\<open>updates\<close> in one
  multi-path write and leaves the siblings alone. An \<^verbatim>\<open>updates\<close> object maps a key
  to the value assigned last; that value may be null.
\<close>

type_synonym updates = "string \<rightharpoonup> jval option"

definition ref_set :: "string \<Rightarrow> jval option \<Rightarrow> document \<Rightarrow> document" where
  "ref_set key v doc = doc(key := v)"

definition ref_update :: "updates \<Rightarrow> document \<Rightarrow> document" where
  "ref_update upd doc = (\<lambda>k. case upd k of None \<Rightarrow> doc k | Some v \<Rightarrow> v)"

section \<open>The timer watcher\<close>

text \<open>
  The object both branches of the watcher build before their single \<^verbatim>\<open>update\<close>:
  \<^verbatim>\<open>timer.devices.forEach(d => { updates[d] = timer.action === "on"; });
  if (timer.action === "on") updates.kill = false;
  updates.timer = null;\<close>
  \<^verbatim>\<open>updates\<close> is a plain object, so assigning a boolean to its \<^verbatim>\<open>__proto__\<close> adds no key.
\<close>

definition timer_updates :: "timer_record \<Rightarrow> updates" where
  "timer_updates timer =
     (let u1 = fold (\<lambda>d u. if d = ''__proto__'' then u
                           else u(d \<mapsto> Some (JBool (action timer = ''on''))))
                (devices timer) Map.empty;
          u2 = (if action timer = ''on'' then u1(''kill'' \<mapsto> Some (JBool False)) else u1)
      in u2(''timer'' \<mapsto> None))"

text \<open>
  A pending \<^verbatim>\<open>setTimeout\<close>: the delay after which it runs and the Timer Record its
  callback closes over.
  \<^verbatim>\<open>activeTimers\<close> maps a timer id to the pending timeout.
\<close>

record timeout =
  delay :: int
  payload :: timer_record

record server =
  activeTimers :: "string \<rightharpoonup> timeout"
  db :: document

text \<open>
  \<^verbatim>\<open>activeTimers\<close> is the plain object \<^verbatim>\<open>{}\<close>. The test \<^verbatim>\<open>if (activeTimers[timer.id])\<close>
  reads an own entry (a pending timeout, truthy) or else a property inherited from
  \<^verbatim>\<open>Object.prototype\<close>; each of those is a function or an object, hence truthy too.
\<close>

definition object_prototype_names :: "string list" where
  "object_prototype_names =
     [''constructor'', ''__defineGetter__'', ''__defineSetter__'', ''hasOwnProperty'',
      ''__lookupGetter__'', ''__lookupSetter__'', ''isPrototypeOf'', ''propertyIsEnumerable'',
      ''toString'', ''valueOf'', ''__proto__'', ''toLocaleString'']"

definition tracking :: "(string \<rightharpoonup> timeout) \<Rightarrow> string \<Rightarrow> bool" where
  "tracking timers k =
     (case timers k of Some t \<Rightarrow> True | None \<Rightarrow> k \<in> set object_prototype_names)"

text \<open>
  Node's \<^verbatim>\<open>setTimeout\<close> keeps a delay between 1 and \<^verbatim>\<open>TIMEOUT_MAX\<close> \<open>= 2^31 - 1\<close> and
  replaces any other delay by 1 millisecond.
\<close>

definition TIMEOUT_MAX :: int where
  "TIMEOUT_MAX = 2147483647"

definition setTimeout_delay :: "int \<Rightarrow> int" where
  "setTimeout_delay ms = (if 1 \<le> ms \<and> ms \<le> TIMEOUT_MAX then ms else 1)"

text \<open>\<^verbatim>\<open>clearAllTimers\<close> cancels and deletes every entry.\<close>

definition clearAllTimers :: "server \<Rightarrow> server" where
  "clearAllTimers st = st\<lparr>activeTimers := Map.empty\<rparr>"

text \<open>
  The \<^verbatim>\<open>on("value")\<close> callback on \<^verbatim>\<open>smartHomeState/timer\<close>. \<open>now\<close> is the reading
  of \<^verbatim>\<open>Date.now()\<close>, \<open>snap\<close> the delivered value of the timer child.
\<close>

definition timer_watcher :: "int \<Rightarrow> jval option \<Rightarrow> server \<Rightarrow> server" where
  "timer_watcher now snap st =
     (case snap of
        Some (JTimer timer) \<Rightarrow>
          if active timer then
            (if tracking (activeTimers st) (timer_id timer) then st
             else (let st1 = clearAllTimers st;
                       remaining = max 0 (endsAt timer - now)
                   in if remaining \<le> 0
                      then st1\<lparr>db := ref_update (timer_updates timer) (db st1)\<rparr>
                      else st1\<lparr>activeTimers := (activeTimers st1)
                             (timer_id timer \<mapsto>
                                \<lparr>delay = setTimeout_delay remaining, payload = timer\<rparr>)\<rparr>))
          else clearAllTimers st
      | _ \<Rightarrow> clearAllTimers st)"

text \<open>
  The callback of the timeout armed under key \<open>k\<close>, run when its delay has elapsed:
  the same update from the captured record, then \<^verbatim>\<open>delete activeTimers[timer.id]\<close>.
  A cleared timeout never runs.
\<close>

definition timeout_fires :: "string \<Rightarrow> server \<Rightarrow> server" where
  "timeout_fires k st =
     (case activeTimers st k of
        None \<Rightarrow> st
      | Some t \<Rightarrow> st\<lparr>db := ref_update (timer_updates (payload t)) (db st),
                     activeTimers := (activeTimers st)(timer_id (payload t) := None)\<rparr>)"

section \<open>The REST handlers\<close>

text \<open>
  A handler that answers with status 400 returns \<open>Inl\<close> of the error and writes
  nothing; otherwise it returns the document (or server state) after its writes.
  The store is taken to answer every call, so the status 500 branches do not occur.
\<close>

datatype error = ValidationError string

text \<open>\<^verbatim>\<open>POST /api/toggle/:led\<close>: reads the child, writes its negation to that child only.\<close>

definition toggle :: "string \<Rightarrow> document \<Rightarrow> error + document" where
  "toggle led doc =
     (if led \<in> set [''led1'', ''led2'', ''led3'', ''tv'']
      then (let newVal = (\<not> truthy (doc led)) in Inr (ref_set led (Some (JBool newVal)) doc))
      else Inl (ValidationError ''Invalid device. Use led1, led2, led3, or tv.''))"

text \<open>\<^verbatim>\<open>POST /api/mode/:mode\<close> (its comment: removed disco to fix LED2 conflict).\<close>

definition set_mode :: "string \<Rightarrow> document \<Rightarrow> error + document" where
  "set_mode m doc =
     (if m \<in> set [''normal'', ''wave'', ''pulse'']
      then Inr (ref_set ''mode'' (Some (JStr m)) doc)
      else Inl (ValidationError ''Invalid mode. Use normal, wave, or pulse.''))"

text \<open>\<^verbatim>\<open>POST /api/kill\<close>.\<close>

definition kill_switch :: "document \<Rightarrow> document" where
  "kill_switch doc =
     ref_update (map_of [(''led1'', Some (JBool False)), (''led2'', Some (JBool False)),
                         (''led3'', Some (JBool False)), (''kill'', Some (JBool True)),
                         (''mode'', Some (JStr ''normal''))]) doc"

text \<open>\<^verbatim>\<open>GET /do/emergency\<close>.\<close>

definition emergency :: "document \<Rightarrow> document" where
  "emergency doc =
     ref_update (map_of [(''led1'', Some (JBool False)), (''led2'', Some (JBool False)),
                         (''led3'', Some (JBool False)), (''tv'', Some (JBool False)),
                         (''kill'', Some (JBool True))]) doc"

subsection \<open>Starting a timer\<close>

text \<open>The template literal \<^verbatim>\<open>`timer_${Date.now()}`\<close>: the decimal digits of the reading.\<close>

fun dec_nat :: "nat \<Rightarrow> string" where
  "dec_nat n = (if n < 10 then [''0123456789'' ! n]
                else dec_nat (n div 10) @ [''0123456789'' ! (n mod 10)])"

declare dec_nat.simps [simp del]

definition dec_int :: "int \<Rightarrow> string" where
  "dec_int i = (if i < 0 then ''-'' @ dec_nat (nat (- i)) else dec_nat (nat i))"

definition make_timer_id :: "int \<Rightarrow> string" where
  "make_timer_id now = ''timer_'' @ dec_int now"

text \<open>The text of the third check's answer; it ends with a quote character.\<close>

definition action_message :: string where
  "action_message = ''action must be 'on' or 'off'' @ [CHR 0x27]"

text \<open>
  The request body; a field the client left out is \<open>None\<close>. The fields are typed:
  \<^verbatim>\<open>devices\<close> an array of strings, \<^verbatim>\<open>duration\<close> an integer number, \<^verbatim>\<open>action\<close> a string.
  Bodies of other shapes (a duration that is a string, a boolean or a fraction, which
  JavaScript's comparisons coerce) are outside this model.
\<close>

record timer_request =
  body_devices :: "string list option"
  body_duration :: "int option"
  body_action :: "string option"

text \<open>
  The four checks of \<^verbatim>\<open>POST /api/timer/start\<close>, in the order of the source, with the
  list of device names the last check uses. They yield the validated fields.
\<close>

definition validate_timer_request ::
  "string list \<Rightarrow> string \<Rightarrow> timer_request \<Rightarrow> error + (string list \<times> int \<times> string)" where
  "validate_timer_request names names_msg req =
     (case body_devices req of
        None \<Rightarrow> Inl (ValidationError ''devices must be a non-empty array of led names'')
      | Some devs \<Rightarrow>
          if devs = [] then Inl (ValidationError ''devices must be a non-empty array of led names'')
          else (case body_duration req of
             None \<Rightarrow> Inl (ValidationError ''duration must be between 1 and 86400 seconds'')
           | Some dur \<Rightarrow>
               if dur = 0 then Inl (ValidationError ''duration must be between 1 and 86400 seconds'')
               else if dur < 1 then Inl (ValidationError ''duration must be between 1 and 86400 seconds'')
               else if dur > 86400 then Inl (ValidationError ''duration must be between 1 and 86400 seconds'')
               else (case body_action req of
                  None \<Rightarrow> Inl (ValidationError action_message)
                | Some act \<Rightarrow>
                    if act \<in> set [''on'', ''off'']
                    then (if list_all (\<lambda>d. d \<in> set names) devs
                          then Inr (devs, dur, act)
                          else Inl (ValidationError names_msg))
                    else Inl (ValidationError action_message))))"

text \<open>
  \<^verbatim>\<open>executeTimer\<close> of the watcher-driven server: it only stores the record.
  \<^verbatim>\<open>Date.now()\<close> is read once for \<^verbatim>\<open>startedAt\<close> and once more for \<^verbatim>\<open>endsAt\<close>.
\<close>

definition executeTimer ::
  "int \<Rightarrow> int \<Rightarrow> string \<Rightarrow> string list \<Rightarrow> int \<Rightarrow> string \<Rightarrow> server \<Rightarrow> server" where
  "executeTimer now_started now_ends tid devs dur act st =
     st\<lparr>db := ref_set ''timer''
        (Some (JTimer \<lparr>timer_id = tid, devices = devs, duration = dur, action = act,
                       startedAt = now_started, endsAt = now_ends + dur * 1000,
                       active = True\<rparr>)) (db st)\<rparr>"

text \<open>
  \<^verbatim>\<open>POST /api/timer/start\<close> of the watcher-driven server. The three clock readings are
  those of the id, of \<^verbatim>\<open>startedAt\<close> and of \<^verbatim>\<open>endsAt\<close>. The answer carries the id.
\<close>

definition timer_start ::
  "int \<Rightarrow> int \<Rightarrow> int \<Rightarrow> timer_request \<Rightarrow> server \<Rightarrow> error + (string \<times> server)" where
  "timer_start now_id now_started now_ends req st =
     (case validate_timer_request [''led1'', ''led2'', ''led3'', ''tv'']
             ''Invalid device names. Use led1, led2, led3, tv.'' req of
        Inl e \<Rightarrow> Inl e
      | Inr (devs, dur, act) \<Rightarrow>
          (let st1 = clearAllTimers st;
               timerId = make_timer_id now_id
           in Inr (timerId, executeTimer now_started now_ends timerId devs dur act st1)))"

text \<open>
  The same route in \<^verbatim>\<open>src/server.js\<close>: device names are checked against
  \<^verbatim>\<open>["led1", "led2", "led3"]\<close>, and \<^verbatim>\<open>executeTimer\<close> also arms the countdown itself,
  for \<^verbatim>\<open>duration * 1000\<close> milliseconds. Only the arming is modelled here; that callback
  writes the device values and then clears the \<^verbatim>\<open>timer\<close> child in a second write.
\<close>

definition executeTimer_direct ::
  "int \<Rightarrow> int \<Rightarrow> string \<Rightarrow> string list \<Rightarrow> int \<Rightarrow> string \<Rightarrow> server \<Rightarrow> server" where
  "executeTimer_direct now_started now_ends tid devs dur act st =
     (let timer = \<lparr>timer_id = tid, devices = devs, duration = dur, action = act,
                   startedAt = now_started, endsAt = now_ends + dur * 1000, active = True\<rparr>
      in st\<lparr>db := ref_set ''timer'' (Some (JTimer timer)) (db st),
            activeTimers := (activeTimers st)
              (tid \<mapsto> \<lparr>delay = setTimeout_delay (dur * 1000), payload = timer\<rparr>)\<rparr>)"

definition timer_start_direct ::
  "int \<Rightarrow> int \<Rightarrow> int \<Rightarrow> timer_request \<Rightarrow> server \<Rightarrow> error + (string \<times> server)" where
  "timer_start_direct now_id now_started now_ends req st =
     (case validate_timer_request [''led1'', ''led2'', ''led3'']
             ''Invalid device names. Use led1, led2, led3.'' req of
        Inl e \<Rightarrow> Inl e
      | Inr (devs, dur, act) \<Rightarrow>
          (let st1 = clearAllTimers st;
               timerId = make_timer_id now_id
           in Inr (timerId, executeTimer_direct now_started now_ends timerId devs dur act st1)))"

subsection \<open>Timer status\<close>

text \<open>\<^verbatim>\<open>Math.ceil(x / 1000)\<close> on an integer number of milliseconds.\<close>

definition ceil_seconds :: "int \<Rightarrow> int" where
  "ceil_seconds x = - ((- x) div 1000)"

text \<open>The JSON answer of \<^verbatim>\<open>GET /api/timer/status\<close>.\<close>

datatype timer_status = Inactive | Active timer_record int

definition timer_status_query :: "int \<Rightarrow> document \<Rightarrow> timer_status \<times> document" where
  "timer_status_query now doc =
     (case doc ''timer'' of
        Some (JTimer timer) \<Rightarrow>
          if active timer then
            (let remaining = max 0 (ceil_seconds (endsAt timer - now))
             in if remaining \<le> 0
                then (Inactive, ref_set ''timer'' None doc)
                else (Active timer remaining, doc))
          else (Inactive, doc)
      | _ \<Rightarrow> (Inactive, doc))"

section \<open>The presence tracker\<close>

text \<open>
  \<^verbatim>\<open>esp32Status\<close>. \<^verbatim>\<open>lastSeen\<close> is stored as an ISO string with millisecond precision
  and read back with \<^verbatim>\<open>new Date(lastSeen).getTime()\<close>; the model keeps the milliseconds.
\<close>

record esp32Status =
  online :: bool
  lastSeen :: "int option"
  ip :: "string option"
  rssi :: "int option"
  uptime :: "int option"
  freeHeap :: "int option"

definition initial_esp32Status :: esp32Status where
  "initial_esp32Status =
     \<lparr>online = False, lastSeen = None, ip = None, rssi = None, uptime = None, freeHeap = None\<rparr>"

definition ESP_TIMEOUT_MS :: int where
  "ESP_TIMEOUT_MS = 30000"

record heartbeat_body =
  hb_ip :: "string option"
  hb_rssi :: "int option"
  hb_uptime :: "int option"
  hb_freeHeap :: "int option"

text \<open>\<^verbatim>\<open>x || y\<close> on optional strings and \<^verbatim>\<open>x || null\<close> on optional numbers.\<close>

fun or_string :: "string option \<Rightarrow> string option \<Rightarrow> string option" where
  "or_string None y = y"
| "or_string (Some s) y = (if s = [] then y else Some s)"

fun or_null :: "int option \<Rightarrow> int option" where
  "or_null None = None"
| "or_null (Some n) = (if n = 0 then None else Some n)"

text \<open>\<^verbatim>\<open>POST /api/esp/heartbeat\<close> replaces the whole status object.\<close>

definition heartbeat :: "int \<Rightarrow> string option \<Rightarrow> heartbeat_body \<Rightarrow> esp32Status \<Rightarrow> esp32Status" where
  "heartbeat now req_ip body s =
     \<lparr>online = True, lastSeen = Some now, ip = or_string (hb_ip body) req_ip,
      rssi = or_null (hb_rssi body), uptime = or_null (hb_uptime body),
      freeHeap = or_null (hb_freeHeap body)\<rparr>"

text \<open>The \<^verbatim>\<open>setInterval\<close> callback, every 5000 ms.\<close>

definition esp_tick :: "int \<Rightarrow> esp32Status \<Rightarrow> esp32Status" where
  "esp_tick now s =
     (case lastSeen s of
        None \<Rightarrow> s
      | Some seen \<Rightarrow>
          (let elapsed = now - seen
           in if elapsed > ESP_TIMEOUT_MS then s\<lparr>online := False\<rparr> else s))"

text \<open>\<^verbatim>\<open>GET /api/esp/status\<close>: rechecks freshness, stores and answers the status.\<close>

definition esp_status :: "int \<Rightarrow> esp32Status \<Rightarrow> esp32Status" where
  "esp_status now s =
     (case lastSeen s of
        None \<Rightarrow> s
      | Some seen \<Rightarrow>
          (let elapsed = now - seen
           in s\<lparr>online := (elapsed < ESP_TIMEOUT_MS)\<rparr>))"

text \<open>What happens to the tracker, each event with the clock reading it sees.\<close>

datatype presence_event =
  Heartbeat int "string option" heartbeat_body
| Tick int
| StatusQuery int

fun presence_step :: "presence_event \<Rightarrow> esp32Status \<Rightarrow> esp32Status" where
  "presence_step (Heartbeat now req_ip body) s = heartbeat now req_ip body s"
| "presence_step (Tick now) s = esp_tick now s"
| "presence_step (StatusQuery now) s = esp_status now s"

fun event_time :: "presence_event \<Rightarrow> int" where
  "event_time (Heartbeat now req_ip body) = now"
| "event_time (Tick now) = now"
| "event_time (StatusQuery now) = now"

fun is_heartbeat :: "presence_event \<Rightarrow> bool" where
  "is_heartbeat (Heartbeat now req_ip body) = True"
| "is_heartbeat (Tick now) = False"
| "is_heartbeat (StatusQuery now) = False"

definition presence_run :: "presence_event list \<Rightarrow> esp32Status \<Rightarrow> esp32Status" where
  "presence_run evs s = fold presence_step evs s"

section \<open>The firmware's hardware engine\<close>

text \<open>
  The sketch's globals and the three output pins. \<^verbatim>\<open>millis()\<close> is an unsigned 32-bit
  counter, read once for the test and once for the assignment; \<^verbatim>\<open>random(0,2)\<close> yields
  0 or 1, here the three booleans \<open>r1\<close>, \<open>r2\<close>, \<open>r3\<close>. \<^verbatim>\<open>waveStep\<close> starts at 0 and stays
  within 0..2, where C's \<^verbatim>\<open>%\<close> agrees with \<open>mod\<close>.
\<close>

record firmware =
  led1 :: bool
  led2 :: bool
  led3 :: bool
  killSwitch :: bool
  mode :: string
  lastAnim :: "32 word"
  waveStep :: int
  pulse :: bool
  pin_LED1 :: bool
  pin_LED2 :: bool
  pin_LED3 :: bool

definition hardwareEngine ::
  "32 word \<Rightarrow> 32 word \<Rightarrow> bool \<Rightarrow> bool \<Rightarrow> bool \<Rightarrow> firmware \<Rightarrow> firmware" where
  "hardwareEngine millis1 millis2 r1 r2 r3 fw =
     (if killSwitch fw then fw\<lparr>pin_LED1 := False, pin_LED2 := False, pin_LED3 := False\<rparr>
      else if mode fw = ''normal''
      then fw\<lparr>pin_LED1 := led1 fw, pin_LED2 := led2 fw, pin_LED3 := led3 fw\<rparr>
      else if millis1 - lastAnim fw < 200 then fw
      else (let fw1 = fw\<lparr>lastAnim := millis2\<rparr>
            in if mode fw1 = ''wave''
               then fw1\<lparr>pin_LED1 := (waveStep fw1 = 0), pin_LED2 := (waveStep fw1 = 1),
                        pin_LED3 := (waveStep fw1 = 2), waveStep := (waveStep fw1 + 1) mod 3\<rparr>
               else if mode fw1 = ''pulse''
               then fw1\<lparr>pulse := (\<not> pulse fw1), pin_LED1 := (\<not> pulse fw1),
                        pin_LED2 := (\<not> pulse fw1), pin_LED3 := (\<not> pulse fw1)\<rparr>
               else if mode fw1 = ''disco''
               then fw1\<lparr>pin_LED1 := r1, pin_LED2 := r2, pin_LED3 := r3\<rparr>
               else fw1))"

section \<open>Concrete states\<close>

text \<open>Inputs on which the theorems below are instantiated and the handlers evaluated.\<close>

definition example_timer :: timer_record where
  "example_timer = \<lparr>timer_id = ''timer_1000'', devices = [''led2'', ''tv''], duration = 2,
     action = ''on'', startedAt = 1000, endsAt = 3000, active = True\<rparr>"

definition example_doc :: document where
  "example_doc = map_of [(''led1'', JBool True), (''led2'', JBool False), (''led3'', JBool False),
     (''tv'', JBool False), (''mode'', JStr ''normal''), (''kill'', JBool True),
     (''timer'', JTimer example_timer)]"

definition idle_server :: server where
  "idle_server = \<lparr>activeTimers = Map.empty, db = example_doc\<rparr>"

definition armed_server :: server where
  "armed_server = \<lparr>activeTimers = [''timer_1000'' \<mapsto> \<lparr>delay = 2000, payload = example_timer\<rparr>],
     db = example_doc\<rparr>"

definition example_firmware :: firmware where
  "example_firmware = \<lparr>led1 = True, led2 = False, led3 = True, killSwitch = True,
     mode = ''wave'', lastAnim = 0, waveStep = 1, pulse = False,
     pin_LED1 = True, pin_LED2 = False, pin_LED3 = True\<rparr>"

definition example_body :: heartbeat_body where
  "example_body = \<lparr>hb_ip = Some ''192.168.1.50'', hb_rssi = Some (- 61),
     hb_uptime = Some 120, hb_freeHeap = Some 200000\<rparr>"

definition example_online :: esp32Status where
  "example_online = heartbeat 1000 None example_body initial_esp32Status"

definition constructor_timer :: timer_record where
  "constructor_timer = \<lparr>timer_id = ''constructor'', devices = [''led2''], duration = 2,
     action = ''on'', startedAt = 1000, endsAt = 3000, active = True\<rparr>"

definition constructor_server :: server where
  "constructor_server = \<lparr>activeTimers = Map.empty,
     db = map_of [(''led1'', JBool False), (''led2'', JBool False), (''led3'', JBool False),
       (''tv'', JBool False), (''mode'', JStr ''normal''), (''kill'', JBool False),
       (''timer'', JTimer constructor_timer)]\<rparr>"

definition far_timer :: timer_record where
  "far_timer = \<lparr>timer_id = ''timer_1000'', devices = [''led2''], duration = 2,
     action = ''on'', startedAt = 1000, endsAt = 3000001000, active = True\<rparr>"

definition far_server :: server where
  "far_server = \<lparr>activeTimers = Map.empty,
     db = map_of [(''led1'', JBool False), (''led2'', JBool False), (''led3'', JBool False),
       (''tv'', JBool False), (''mode'', JStr ''normal''), (''kill'', JBool False),
       (''timer'', JTimer far_timer)]\<rparr>"

definition tv_request :: timer_request where
  "tv_request = \<lparr>body_devices = Some [''tv''], body_duration = Some 5, body_action = Some ''off''\<rparr>"

definition tv_timer :: timer_record where
  "tv_timer = \<lparr>timer_id = ''timer_1000'', devices = [''tv''], duration = 5, action = ''off'',
     startedAt = 1000, endsAt = 6001, active = True\<rparr>"

section \<open>Facts about the update object\<close>

lemma fold_assign:
  "fold (\<lambda>d u. if d = p then u else u(d \<mapsto> v)) ds u0 k
     = (if k \<in> set ds \<and> k \<noteq> p then Some v else u0 k)"
  by (induction ds arbitrary: u0) auto

lemma timer_updates_timer: "timer_updates timer ''timer'' = Some None"
  by (simp add: timer_updates_def Let_def)

lemma timer_updates_kill_on:
  "action timer = ''on'' \<Longrightarrow> timer_updates timer ''kill'' = Some (Some (JBool False))"
  by (simp add: timer_updates_def Let_def)

lemma timer_updates_device:
  "d \<in> set (devices timer) \<Longrightarrow> d \<noteq> ''kill'' \<Longrightarrow> d \<noteq> ''timer'' \<Longrightarrow> d \<noteq> ''__proto__'' \<Longrightarrow>
   timer_updates timer d = Some (Some (JBool (action timer = ''on'')))"
  by (simp add: timer_updates_def Let_def fold_assign)

lemma timer_updates_other:
  "k \<notin> set (devices timer) \<Longrightarrow> k \<noteq> ''kill'' \<Longrightarrow> k \<noteq> ''timer'' \<Longrightarrow>
   timer_updates timer k = None"
  by (simp add: timer_updates_def Let_def fold_assign)


lemma ref_update_timer_updates_device:
  "d \<in> set (devices timer) \<Longrightarrow> d \<noteq> ''kill'' \<Longrightarrow> d \<noteq> ''timer'' \<Longrightarrow> d \<noteq> ''__proto__'' \<Longrightarrow>
   ref_update (timer_updates timer) doc d = Some (JBool (action timer = ''on''))"
  by (simp add: ref_update_def timer_updates_device)

lemma ref_update_timer_updates_kill:
  "action timer = ''on'' \<Longrightarrow> ref_update (timer_updates timer) doc ''kill'' = Some (JBool False)"
  by (simp add: ref_update_def timer_updates_kill_on)

lemma ref_update_timer_updates_timer:
  "ref_update (timer_updates timer) doc ''timer'' = None"
  by (simp add: ref_update_def timer_updates_timer)

lemma ref_update_timer_updates_other:
  "k \<notin> set (devices timer) \<Longrightarrow> k \<noteq> ''kill'' \<Longrightarrow> k \<noteq> ''timer'' \<Longrightarrow>
   ref_update (timer_updates timer) doc k = doc k"
  by (simp add: ref_update_def timer_updates_other)

lemma tracking_entry: "timers k = Some t \<Longrightarrow> tracking timers k"
  by (simp add: tracking_def)

lemma tracking_empty:
  "tracking Map.empty k = (k \<in> set object_prototype_names)"
  by (simp add: tracking_def)

lemma timer_1000_not_inherited: "''timer_1000'' \<notin> set object_prototype_names"
  by (simp add: object_prototype_names_def)

lemma setTimeout_delay_in_range:
  "1 \<le> ms \<Longrightarrow> ms \<le> 2147483647 \<Longrightarrow> setTimeout_delay ms = ms"
  by (simp add: setTimeout_delay_def TIMEOUT_MAX_def)

lemma watcher_tracked: "active timer \<Longrightarrow> tracking (activeTimers st) (timer_id timer) \<Longrightarrow>
   timer_watcher now (Some (JTimer timer)) st = st"
  by (simp add: timer_watcher_def)

lemma watcher_expired:
  "active timer \<Longrightarrow> \<not> tracking (activeTimers st) (timer_id timer) \<Longrightarrow> endsAt timer \<le> now \<Longrightarrow>
   timer_watcher now (Some (JTimer timer)) st
     = \<lparr>activeTimers = Map.empty, db = ref_update (timer_updates timer) (db st)\<rparr>"
  by (simp add: timer_watcher_def clearAllTimers_def Let_def)

lemma watcher_pending:
  "active timer \<Longrightarrow> \<not> tracking (activeTimers st) (timer_id timer) \<Longrightarrow> now < endsAt timer \<Longrightarrow>
   timer_watcher now (Some (JTimer timer)) st
     = \<lparr>activeTimers = [timer_id timer \<mapsto>
          \<lparr>delay = setTimeout_delay (endsAt timer - now), payload = timer\<rparr>],
        db = db st\<rparr>"
  by (simp add: timer_watcher_def clearAllTimers_def Let_def)

lemma armed_timeout_fires:
  "timeout_fires (timer_id timer)
     \<lparr>activeTimers = [timer_id timer \<mapsto> \<lparr>delay = n, payload = timer\<rparr>], db = doc\<rparr>
   = \<lparr>activeTimers = Map.empty, db = ref_update (timer_updates timer) doc\<rparr>"
  by (simp add: timeout_fires_def)

section \<open>Redundant notifications\<close>

text \<open>
  Claim C4. When a snapshot with an active timer arrives and \<^verbatim>\<open>activeTimers\<close> already
  holds an entry under the timer's id, the watcher returns at once: the server state is
  the same afterwards, so no countdown is created and the tracked one is not cancelled.
\<close>

theorem watcher_tracked_timer_ignored:
  assumes "active timer" and "activeTimers st (timer_id timer) = Some tracked"
  shows "timer_watcher now (Some (JTimer timer)) st = st"
  using assms by (simp add: timer_watcher_def tracking_def)

theorem watcher_tracked_timer_ignored_witness:
  "active example_timer \<and> activeTimers armed_server (timer_id example_timer)
      = Some \<lparr>delay = 2000, payload = example_timer\<rparr>
   \<and> timer_watcher 1500 (Some (JTimer example_timer)) armed_server = armed_server
   \<and> activeTimers (timer_watcher 1500 (Some (JTimer example_timer)) armed_server) ''timer_1000''
      = Some \<lparr>delay = 2000, payload = example_timer\<rparr>"
proof -
  have a: "active example_timer" by (simp add: example_timer_def)
  have b: "activeTimers armed_server (timer_id example_timer)
      = Some \<lparr>delay = 2000, payload = example_timer\<rparr>"
    by (simp add: armed_server_def example_timer_def)
  from watcher_tracked_timer_ignored [OF a b, of 1500] a b show ?thesis
    by (simp add: armed_server_def)
qed

section \<open>A timer that is not yet tracked\<close>

text \<open>
  What the watcher does with an active timer that its guard lets through: with
  \<open>remaining = max 0 (endsAt - now)\<close>, at 0 it applies the update at once; otherwise it arms
  one timeout under the timer's id whose callback applies the same update. The update
  sets every listed device to the boolean \<open>action = on\<close>, sets \<^verbatim>\<open>kill\<close> to false when the
  action is on, and removes \<^verbatim>\<open>timer\<close>.
\<close>

lemma watcher_untracked_timer:
  assumes "active timer" and "\<not> tracking (activeTimers st) (timer_id timer)"
  shows "(max 0 (endsAt timer - now) = 0 \<longrightarrow>
            timer_watcher now (Some (JTimer timer)) st
              = \<lparr>activeTimers = Map.empty, db = ref_update (timer_updates timer) (db st)\<rparr>)
       \<and> (max 0 (endsAt timer - now) \<noteq> 0 \<longrightarrow>
            timer_watcher now (Some (JTimer timer)) st
              = \<lparr>activeTimers = [timer_id timer \<mapsto>
                    \<lparr>delay = setTimeout_delay (max 0 (endsAt timer - now)), payload = timer\<rparr>],
                 db = db st\<rparr>
            \<and> timeout_fires (timer_id timer) (timer_watcher now (Some (JTimer timer)) st)
              = \<lparr>activeTimers = Map.empty, db = ref_update (timer_updates timer) (db st)\<rparr>)
       \<and> (\<forall>d \<in> set (devices timer). d \<noteq> ''kill'' \<and> d \<noteq> ''timer'' \<and> d \<noteq> ''__proto__'' \<longrightarrow>
            ref_update (timer_updates timer) (db st) d = Some (JBool (action timer = ''on'')))
       \<and> (action timer = ''on'' \<longrightarrow>
            ref_update (timer_updates timer) (db st) ''kill'' = Some (JBool False))
       \<and> ref_update (timer_updates timer) (db st) ''timer'' = None"
proof (intro conjI impI ballI)
  assume "max 0 (endsAt timer - now) = 0"
  then have "endsAt timer \<le> now" by simp
  with assms show "timer_watcher now (Some (JTimer timer)) st
      = \<lparr>activeTimers = Map.empty, db = ref_update (timer_updates timer) (db st)\<rparr>"
    by (rule watcher_expired)
next
  assume "max 0 (endsAt timer - now) \<noteq> 0"
  then have lt: "now < endsAt timer" by (simp add: max_def split: if_splits)
  then have m: "max 0 (endsAt timer - now) = endsAt timer - now" by simp
  from assms lt show armed: "timer_watcher now (Some (JTimer timer)) st
      = \<lparr>activeTimers = [timer_id timer \<mapsto>
            \<lparr>delay = setTimeout_delay (max 0 (endsAt timer - now)), payload = timer\<rparr>],
         db = db st\<rparr>"
    unfolding m by (rule watcher_pending)
  show "timeout_fires (timer_id timer) (timer_watcher now (Some (JTimer timer)) st)
      = \<lparr>activeTimers = Map.empty, db = ref_update (timer_updates timer) (db st)\<rparr>"
    unfolding armed by (rule armed_timeout_fires)
next
  fix d assume "d \<in> set (devices timer)"
    and "d \<noteq> ''kill'' \<and> d \<noteq> ''timer'' \<and> d \<noteq> ''__proto__''"
  then show "ref_update (timer_updates timer) (db st) d = Some (JBool (action timer = ''on''))"
    by (simp add: ref_update_timer_updates_device)
next
  assume "action timer = ''on''"
  then show "ref_update (timer_updates timer) (db st) ''kill'' = Some (JBool False)"
    by (rule ref_update_timer_updates_kill)
next
  show "ref_update (timer_updates timer) (db st) ''timer'' = None"
    by (rule ref_update_timer_updates_timer)
qed

lemma watcher_untracked_timer_example:
  "active example_timer \<and> \<not> tracking (activeTimers idle_server) (timer_id example_timer)
   \<and> timer_watcher 5000 (Some (JTimer example_timer)) idle_server
        = \<lparr>activeTimers = Map.empty, db = ref_update (timer_updates example_timer) example_doc\<rparr>
   \<and> timer_watcher 1500 (Some (JTimer example_timer)) idle_server
        = \<lparr>activeTimers = [''timer_1000'' \<mapsto> \<lparr>delay = 1500, payload = example_timer\<rparr>],
           db = example_doc\<rparr>
   \<and> timeout_fires ''timer_1000'' (timer_watcher 1500 (Some (JTimer example_timer)) idle_server)
        = \<lparr>activeTimers = Map.empty, db = ref_update (timer_updates example_timer) example_doc\<rparr>
   \<and> ref_update (timer_updates example_timer) example_doc ''led2'' = Some (JBool True)
   \<and> ref_update (timer_updates example_timer) example_doc ''tv'' = Some (JBool True)
   \<and> ref_update (timer_updates example_timer) example_doc ''kill'' = Some (JBool False)
   \<and> ref_update (timer_updates example_timer) example_doc ''timer'' = None"
proof -
  have a: "active example_timer" by (simp add: example_timer_def)
  have d: "devices example_timer = [''led2'', ''tv'']" "action example_timer = ''on''"
    "endsAt example_timer = 3000" "timer_id example_timer = ''timer_1000''"
    by (simp_all add: example_timer_def)
  have b: "\<not> tracking (activeTimers idle_server) (timer_id example_timer)"
    by (simp add: idle_server_def d tracking_empty timer_1000_not_inherited)
  have s: "db idle_server = example_doc" by (simp add: idle_server_def)
  have expired: "max 0 (endsAt example_timer - 5000) = 0"
    and pending: "max 0 (endsAt example_timer - 1500) = 1500"
    by (simp_all add: d)
  have t: "setTimeout_delay 1500 = 1500" by (simp add: setTimeout_delay_in_range)
  note now5000 = watcher_untracked_timer [OF a b, of 5000, unfolded expired s d]
  note now1500 = watcher_untracked_timer [OF a b, of 1500, unfolded pending s d t]
  from now5000 now1500 a b show ?thesis by (simp add: timeout_fires_def d t)
qed

text \<open>
  Claim C1 says that every snapshot of an active timer whose id is not already armed is
  applied at once when \<open>remaining\<close> is 0 and is otherwise armed for exactly \<open>remaining\<close>
  milliseconds. Evaluated on two records that \<^verbatim>\<open>POST /api/state\<close> can store. With the id
  \<^verbatim>\<open>constructor\<close>, no countdown armed and the deadline passed, the guard
  \<^verbatim>\<open>if (activeTimers[timer.id])\<close> reads the inherited \<^verbatim>\<open>Object.prototype.constructor\<close>, and
  the watcher returns: the server state is unchanged, \<^verbatim>\<open>led2\<close> stays false and \<^verbatim>\<open>timer\<close>
  stays stored. With 3000000000 ms remaining, above \<open>2^31 - 1\<close>, the armed timeout runs
  after 1 ms.
\<close>

theorem watcher_skips_inherited_id:
  "active constructor_timer
   \<and> activeTimers constructor_server ''constructor'' = None
   \<and> max 0 (endsAt constructor_timer - 5000) = 0
   \<and> timer_watcher 5000 (Some (JTimer constructor_timer)) constructor_server = constructor_server
   \<and> db constructor_server ''led2'' = Some (JBool False)
   \<and> db constructor_server ''timer'' = Some (JTimer constructor_timer)
   \<and> active far_timer
   \<and> activeTimers far_server ''timer_1000'' = None
   \<and> max 0 (endsAt far_timer - 1000) = 3000000000
   \<and> activeTimers (timer_watcher 1000 (Some (JTimer far_timer)) far_server) ''timer_1000''
        = Some \<lparr>delay = 1, payload = far_timer\<rparr>
   \<and> db (timer_watcher 1000 (Some (JTimer far_timer)) far_server) = db far_server"
proof -
  have c: "active constructor_timer" "timer_id constructor_timer = ''constructor''"
    "endsAt constructor_timer = 3000"
    by (simp_all add: constructor_timer_def)
  have cs: "activeTimers constructor_server = Map.empty"
    "db constructor_server ''led2'' = Some (JBool False)"
    "db constructor_server ''timer'' = Some (JTimer constructor_timer)"
    by (simp_all add: constructor_server_def)
  have "tracking (activeTimers constructor_server) (timer_id constructor_timer)"
    by (simp add: c cs tracking_empty object_prototype_names_def)
  with c(1) have skip:
    "timer_watcher 5000 (Some (JTimer constructor_timer)) constructor_server = constructor_server"
    by (rule watcher_tracked)
  have f: "active far_timer" "timer_id far_timer = ''timer_1000''"
    "endsAt far_timer = 3000001000"
    by (simp_all add: far_timer_def)
  have fs: "activeTimers far_server = Map.empty" by (simp add: far_server_def)
  have nt: "\<not> tracking (activeTimers far_server) (timer_id far_timer)"
    by (simp add: f fs tracking_empty timer_1000_not_inherited)
  have late: "setTimeout_delay 3000000000 = 1"
    by (simp add: setTimeout_delay_def TIMEOUT_MAX_def)
  have armed: "timer_watcher 1000 (Some (JTimer far_timer)) far_server
      = \<lparr>activeTimers = [timer_id far_timer \<mapsto> \<lparr>delay = 1, payload = far_timer\<rparr>],
         db = db far_server\<rparr>"
    using watcher_pending [OF f(1) nt, of 1000] by (simp add: f late)
  show ?thesis
    unfolding skip armed using c cs f fs by simp
qed

section \<open>Idempotent firing\<close>




section \<open>Kill flag, toggle and mode\<close>

lemma example_doc_values:
  "example_doc ''led1'' = Some (JBool True)" "example_doc ''led2'' = Some (JBool False)"
  "example_doc ''led3'' = Some (JBool False)" "example_doc ''tv'' = Some (JBool False)"
  "example_doc ''mode'' = Some (JStr ''normal'')" "example_doc ''kill'' = Some (JBool True)"
  "example_doc ''timer'' = Some (JTimer example_timer)"
  by (simp_all add: example_doc_def)

text \<open>
  Claim C2 says that every operation that turns a device on clears \<^verbatim>\<open>kill\<close> in the same
  update. \<^verbatim>\<open>POST /api/toggle/:led\<close> writes the one device child and nothing else, and
  \<^verbatim>\<open>POST /api/mode/:mode\<close> writes \<^verbatim>\<open>mode\<close> only. Evaluated on a document with
  \<^verbatim>\<open>led2 = false\<close> and \<^verbatim>\<open>kill = true\<close>: the toggle stores \<^verbatim>\<open>led2 = true\<close> and \<^verbatim>\<open>kill\<close> is
  still true; the mode change to wave leaves \<^verbatim>\<open>kill\<close> true as well. (The timer update and
  the \<^verbatim>\<open>/do/:device/:action\<close> route do clear it.)
\<close>

theorem toggle_and_mode_keep_kill:
  "example_doc ''led2'' = Some (JBool False) \<and> example_doc ''kill'' = Some (JBool True)
   \<and> toggle ''led2'' example_doc = Inr (ref_set ''led2'' (Some (JBool True)) example_doc)
   \<and> ref_set ''led2'' (Some (JBool True)) example_doc ''kill'' = Some (JBool True)
   \<and> set_mode ''wave'' example_doc = Inr (ref_set ''mode'' (Some (JStr ''wave'')) example_doc)
   \<and> ref_set ''mode'' (Some (JStr ''wave'')) example_doc ''kill'' = Some (JBool True)"
  by (simp add: toggle_def set_mode_def ref_set_def example_doc_values)

text \<open>
  Claim C3 says that activating the kill switch leaves the stored device booleans
  unchanged. On a document with \<^verbatim>\<open>led1 = true\<close>, \<^verbatim>\<open>POST /api/kill\<close> stores \<^verbatim>\<open>led1 = false\<close>.
\<close>

theorem kill_switch_overwrites_led1:
  "example_doc ''led1'' = Some (JBool True) \<and> kill_switch example_doc ''led1'' = Some (JBool False)
   \<and> kill_switch example_doc ''led1'' \<noteq> example_doc ''led1''"
  by (simp add: kill_switch_def ref_update_def example_doc_values)


lemma kill_switch_values:
  "kill_switch doc ''kill'' = Some (JBool True)"
  "kill_switch doc ''led1'' = Some (JBool False)"
  "kill_switch doc ''led2'' = Some (JBool False)"
  "kill_switch doc ''led3'' = Some (JBool False)"
  "kill_switch doc ''mode'' = Some (JStr ''normal'')"
  by (simp_all add: kill_switch_def ref_update_def)

lemma kill_switch_frame:
  "k \<notin> set [''led1'', ''led2'', ''led3'', ''kill'', ''mode''] \<Longrightarrow> kill_switch doc k = doc k"
  by (simp add: kill_switch_def ref_update_def)

lemma emergency_values:
  "emergency doc ''kill'' = Some (JBool True)"
  "emergency doc ''led1'' = Some (JBool False)"
  "emergency doc ''led2'' = Some (JBool False)"
  "emergency doc ''led3'' = Some (JBool False)"
  "emergency doc ''tv'' = Some (JBool False)"
  by (simp_all add: emergency_def ref_update_def)

lemma emergency_frame:
  "k \<notin> set [''led1'', ''led2'', ''led3'', ''tv'', ''kill''] \<Longrightarrow> emergency doc k = doc k"
  by (simp add: emergency_def ref_update_def)

lemma hardwareEngine_kill:
  "killSwitch fw \<Longrightarrow> hardwareEngine millis1 millis2 r1 r2 r3 fw
          = fw\<lparr>pin_LED1 := False, pin_LED2 := False, pin_LED3 := False\<rparr>"
  by (simp add: hardwareEngine_def)


text \<open>
  Claim C3, as the code has it. \<^verbatim>\<open>POST /api/kill\<close> sets \<^verbatim>\<open>kill\<close> to true, writes false to
  \<^verbatim>\<open>led1\<close>, \<^verbatim>\<open>led2\<close>, \<^verbatim>\<open>led3\<close> and sets \<^verbatim>\<open>mode\<close> to normal; every other child (\<^verbatim>\<open>tv\<close>,
  \<^verbatim>\<open>timer\<close>) keeps its value. \<^verbatim>\<open>GET /do/emergency\<close> sets \<^verbatim>\<open>kill\<close> to true and writes false
  to \<^verbatim>\<open>led1\<close>, \<^verbatim>\<open>led2\<close>, \<^verbatim>\<open>led3\<close>, \<^verbatim>\<open>tv\<close>; every other child keeps its value. Under
  \<^verbatim>\<open>killSwitch\<close> the firmware drives its three pins low and changes none of its variables.
\<close>

theorem kill_switch_writes:
  "kill_switch doc ''kill'' = Some (JBool True)
   \<and> kill_switch doc ''led1'' = Some (JBool False)
   \<and> kill_switch doc ''led2'' = Some (JBool False)
   \<and> kill_switch doc ''led3'' = Some (JBool False)
   \<and> kill_switch doc ''mode'' = Some (JStr ''normal'')
   \<and> (\<forall>k. k \<notin> set [''led1'', ''led2'', ''led3'', ''kill'', ''mode''] \<longrightarrow> kill_switch doc k = doc k)
   \<and> emergency doc ''kill'' = Some (JBool True)
   \<and> emergency doc ''led1'' = Some (JBool False)
   \<and> emergency doc ''led2'' = Some (JBool False)
   \<and> emergency doc ''led3'' = Some (JBool False)
   \<and> emergency doc ''tv'' = Some (JBool False)
   \<and> (\<forall>k. k \<notin> set [''led1'', ''led2'', ''led3'', ''tv'', ''kill''] \<longrightarrow> emergency doc k = doc k)
   \<and> (killSwitch fw \<longrightarrow>
        hardwareEngine millis1 millis2 r1 r2 r3 fw
          = fw\<lparr>pin_LED1 := False, pin_LED2 := False, pin_LED3 := False\<rparr>)"
  by (intro conjI allI impI kill_switch_values emergency_values)
     (erule kill_switch_frame emergency_frame hardwareEngine_kill)+

theorem kill_switch_writes_witness:
  "kill_switch example_doc ''kill'' = Some (JBool True)
   \<and> kill_switch example_doc ''led1'' = Some (JBool False)
   \<and> kill_switch example_doc ''tv'' = Some (JBool False)
   \<and> kill_switch example_doc ''timer'' = Some (JTimer example_timer)
   \<and> emergency example_doc ''tv'' = Some (JBool False)
   \<and> emergency example_doc ''mode'' = Some (JStr ''normal'')
   \<and> killSwitch example_firmware
   \<and> led1 (hardwareEngine 500 501 True True True example_firmware) = True
   \<and> pin_LED1 (hardwareEngine 500 501 True True True example_firmware) = False
   \<and> pin_LED2 (hardwareEngine 500 501 True True True example_firmware) = False
   \<and> pin_LED3 (hardwareEngine 500 501 True True True example_firmware) = False"
proof -
  have k: "killSwitch example_firmware" "led1 example_firmware"
    by (simp_all add: example_firmware_def)
  note w = kill_switch_writes [of example_doc example_firmware 500 501 True True True]
  from w have tv: "kill_switch example_doc ''tv'' = example_doc ''tv''"
    and tm: "kill_switch example_doc ''timer'' = example_doc ''timer''"
    and md: "emergency example_doc ''mode'' = example_doc ''mode''"
    by simp_all
  from w k have hw: "hardwareEngine 500 501 True True True example_firmware
      = example_firmware\<lparr>pin_LED1 := False, pin_LED2 := False, pin_LED3 := False\<rparr>"
    by blast
  from w have rest: "kill_switch example_doc ''kill'' = Some (JBool True)"
    "kill_switch example_doc ''led1'' = Some (JBool False)"
    "emergency example_doc ''tv'' = Some (JBool False)"
    by blast+
  show ?thesis
    unfolding hw tv tm md using k rest by (simp add: example_doc_values)
qed


section \<open>The accepted modes\<close>

text \<open>
  Claim C8 says that the set-mode operation accepts each of normal, wave, pulse and
  disco. The route answers disco with its validation error.
\<close>

theorem set_mode_rejects_disco:
  "set_mode ''disco'' example_doc = Inl (ValidationError ''Invalid mode. Use normal, wave, or pulse.'')"
  by (simp add: set_mode_def)

text \<open>
  Claim C8, as the code has it. A mode among normal, wave and pulse is accepted and
  stored as the \<^verbatim>\<open>mode\<close> child; any other string, disco included, is answered with the
  validation error and nothing is written.
\<close>

theorem set_mode_three_modes:
  "(m \<in> set [''normal'', ''wave'', ''pulse''] \<longrightarrow>
      set_mode m doc = Inr (doc(''mode'' \<mapsto> JStr m)))
   \<and> (m \<notin> set [''normal'', ''wave'', ''pulse''] \<longrightarrow>
      set_mode m doc = Inl (ValidationError ''Invalid mode. Use normal, wave, or pulse.''))"
  unfolding set_mode_def ref_set_def by (cases "m \<in> set [''normal'', ''wave'', ''pulse'']") simp_all

theorem set_mode_three_modes_witness:
  "set_mode ''pulse'' example_doc = Inr (example_doc(''mode'' \<mapsto> JStr ''pulse''))
   \<and> set_mode ''disco'' example_doc = Inl (ValidationError ''Invalid mode. Use normal, wave, or pulse.'')
   \<and> set_mode ''party'' example_doc = Inl (ValidationError ''Invalid mode. Use normal, wave, or pulse.'')"
proof -
  have a: "''pulse'' \<in> set [''normal'', ''wave'', ''pulse'']" by simp
  have b: "''disco'' \<notin> set [''normal'', ''wave'', ''pulse'']" by simp
  have c: "''party'' \<notin> set [''normal'', ''wave'', ''pulse'']" by simp
  from set_mode_three_modes [of "''pulse''" example_doc] a
  have 1: "set_mode ''pulse'' example_doc = Inr (example_doc(''mode'' \<mapsto> JStr ''pulse''))"
    by blast
  from set_mode_three_modes [of "''disco''" example_doc] b
  have 2: "set_mode ''disco'' example_doc = Inl (ValidationError ''Invalid mode. Use normal, wave, or pulse.'')"
    by blast
  from set_mode_three_modes [of "''party''" example_doc] c
  have 3: "set_mode ''party'' example_doc = Inl (ValidationError ''Invalid mode. Use normal, wave, or pulse.'')"
    by blast
  from 1 2 3 show ?thesis by blast
qed

section \<open>The timer status query\<close>

lemma ceil_seconds_ceiling: "ceil_seconds x = \<lceil>real_of_int x / 1000\<rceil>"
  using ceiling_divide_eq_div [where ?'a = real and a = x and b = 1000]
  by (simp add: ceil_seconds_def)

lemma ceil_seconds_le_0: "ceil_seconds x \<le> 0 \<longleftrightarrow> x \<le> 0"
  by (simp add: ceil_seconds_ceiling ceiling_le_iff divide_le_0_iff)

lemma status_query_active:
  assumes "doc ''timer'' = Some (JTimer timer)" and "active timer"
  shows "timer_status_query now doc =
     (if endsAt timer \<le> now then (Inactive, ref_set ''timer'' None doc)
      else (Active timer (ceil_seconds (endsAt timer - now)), doc))"
proof (cases "endsAt timer \<le> now")
  case True
  then have "ceil_seconds (endsAt timer - now) \<le> 0" by (simp add: ceil_seconds_le_0)
  with assms True show ?thesis by (simp add: timer_status_query_def Let_def)
next
  case False
  then have "\<not> ceil_seconds (endsAt timer - now) \<le> 0" by (simp add: ceil_seconds_le_0)
  with assms False show ?thesis by (simp add: timer_status_query_def Let_def max_def)
qed


text \<open>
  Claim C10. When the status query finds an active Timer Record whose deadline has been
  reached, it answers that no timer is active and sets \<^verbatim>\<open>timer\<close> to null. Every other
  child of the document keeps its value: the record's action is not applied.
\<close>

theorem status_query_discards_expired:
  assumes "doc ''timer'' = Some (JTimer timer)" and "active timer" and "endsAt timer \<le> now"
  shows "timer_status_query now doc = (Inactive, ref_set ''timer'' None doc)
       \<and> snd (timer_status_query now doc) ''timer'' = None
       \<and> (\<forall>k. k \<noteq> ''timer'' \<longrightarrow> snd (timer_status_query now doc) k = doc k)"
  using assms by (simp add: status_query_active ref_set_def)

theorem status_query_discards_expired_witness:
  "example_doc ''timer'' = Some (JTimer example_timer) \<and> active example_timer
   \<and> endsAt example_timer \<le> 5000
   \<and> fst (timer_status_query 5000 example_doc) = Inactive
   \<and> snd (timer_status_query 5000 example_doc) ''timer'' = None
   \<and> snd (timer_status_query 5000 example_doc) ''led2'' = Some (JBool False)
   \<and> snd (timer_status_query 5000 example_doc) ''tv'' = Some (JBool False)
   \<and> snd (timer_status_query 5000 example_doc) ''kill'' = Some (JBool True)
   \<and> ref_update (timer_updates example_timer) example_doc ''led2'' = Some (JBool True)"
proof -
  have a: "example_doc ''timer'' = Some (JTimer example_timer)" by (rule example_doc_values)
  have b: "active example_timer" and c: "endsAt example_timer \<le> 5000"
    by (simp_all add: example_timer_def)
  have u: "ref_update (timer_updates example_timer) example_doc ''led2'' = Some (JBool True)"
    by (simp add: ref_update_timer_updates_device example_timer_def)
  from status_query_discards_expired
      [where doc = example_doc and timer = example_timer and now = 5000, OF a b c] a b c u show ?thesis
    by (simp add: example_doc_values ref_set_def)
qed

text \<open>
  Claim C7 says that the remaining time returned equals \<open>max 0 (endsAt - now)\<close>. With
  1500 ms left the query answers \<^verbatim>\<open>remaining = 2\<close>.
\<close>

theorem status_query_remaining_seconds:
  "example_doc ''timer'' = Some (JTimer example_timer) \<and> active example_timer
   \<and> max 0 (endsAt example_timer - 1500) = 1500
   \<and> fst (timer_status_query 1500 example_doc) = Active example_timer 2
   \<and> fst (timer_status_query 1500 example_doc)
       \<noteq> Active example_timer (max 0 (endsAt example_timer - 1500))"
proof -
  have a: "example_doc ''timer'' = Some (JTimer example_timer)" by (rule example_doc_values)
  have b: "active example_timer" and e: "endsAt example_timer = 3000"
    by (simp_all add: example_timer_def)
  have q: "fst (timer_status_query 1500 example_doc) = Active example_timer 2"
    by (simp add: status_query_active
        [where doc = example_doc and timer = example_timer, OF a b] e ceil_seconds_def)
  show ?thesis unfolding q using a b by (simp add: e)
qed

text \<open>
  Claim C7, as the code has it. While an active Timer Record is stored, the query reports
  no active timer when \<open>max 0 (endsAt - now)\<close> is 0, and otherwise returns the remaining
  time in whole seconds, rounded up: \<open>max 0 \<lceil>(endsAt - now) / 1000\<rceil>\<close>.
\<close>

theorem status_query_remaining:
  assumes "doc ''timer'' = Some (JTimer timer)" and "active timer"
  shows "fst (timer_status_query now doc) =
           (if max 0 (endsAt timer - now) = 0 then Inactive
            else Active timer (max 0 \<lceil>real_of_int (endsAt timer - now) / 1000\<rceil>))"
proof (cases "endsAt timer \<le> now")
  case True
  with assms show ?thesis by (simp add: status_query_active)
next
  case False
  then have "\<not> ceil_seconds (endsAt timer - now) \<le> 0" by (simp add: ceil_seconds_le_0)
  then have "max 0 (ceil_seconds (endsAt timer - now)) = ceil_seconds (endsAt timer - now)"
    by simp
  with assms False show ?thesis
    by (simp add: status_query_active ceil_seconds_ceiling)
qed

theorem status_query_remaining_witness:
  "example_doc ''timer'' = Some (JTimer example_timer) \<and> active example_timer
   \<and> fst (timer_status_query 1500 example_doc) = Active example_timer 2
   \<and> fst (timer_status_query 2300 example_doc) = Active example_timer 1
   \<and> fst (timer_status_query 3000 example_doc) = Inactive"
proof -
  have a: "example_doc ''timer'' = Some (JTimer example_timer)" by (rule example_doc_values)
  have b: "active example_timer" and e: "endsAt example_timer = 3000"
    by (simp_all add: example_timer_def)
  from status_query_remaining [where doc = example_doc and timer = example_timer and now = 1500, OF a b]
    status_query_remaining [where doc = example_doc and timer = example_timer and now = 2300, OF a b]
    status_query_remaining [where doc = example_doc and timer = example_timer and now = 3000, OF a b]
    a b
  show ?thesis by (simp add: e)
qed

section \<open>Presence: heartbeat and timeout\<close>

lemma sorted_head_le_last: "sorted (x # xs) \<Longrightarrow> x \<le> last (x # xs)" for x :: int
proof (cases "xs = []")
  case True
  then show ?thesis by simp
next
  case False
  assume "sorted (x # xs)"
  then have "\<forall>y \<in> set xs. x \<le> y" by simp
  moreover from False have "last xs \<in> set xs" by (rule last_in_set)
  ultimately show ?thesis using False by simp
qed

lemma heartbeat_online:
  "online (heartbeat now req_ip body s)" "lastSeen (heartbeat now req_ip body s) = Some now"
  by (simp_all add: heartbeat_def)

lemma presence_run_Cons: "presence_run (e # evs) s = presence_run evs (presence_step e s)"
  by (simp add: presence_run_def)

lemma presence_run_append:
  "presence_run (evs1 @ evs2) s = presence_run evs2 (presence_run evs1 s)"
  by (simp add: presence_run_def)

lemma step_keeps_lastSeen:
  "\<not> is_heartbeat e \<Longrightarrow> lastSeen (presence_step e s) = lastSeen s"
  by (cases e) (simp_all add: esp_tick_def esp_status_def Let_def split: option.splits)

lemma run_keeps_lastSeen:
  "\<not> list_ex is_heartbeat evs \<Longrightarrow> lastSeen (presence_run evs s) = lastSeen s"
  by (induction evs arbitrary: s) (simp_all add: presence_run_def step_keeps_lastSeen)

lemma status_reports_offline:
  "lastSeen s = Some seen \<Longrightarrow> now - seen > ESP_TIMEOUT_MS \<Longrightarrow> \<not> online (esp_status now s)"
  by (simp add: esp_status_def Let_def)

lemma step_offline_stays:
  assumes "\<not> is_heartbeat e" and "lastSeen s = Some seen"
    and "ESP_TIMEOUT_MS \<le> event_time e - seen" and "\<not> online s"
  shows "\<not> online (presence_step e s)"
  using assms by (cases e) (simp_all add: esp_tick_def esp_status_def Let_def)

lemma step_goes_offline_late:
  assumes "\<not> is_heartbeat e" and "lastSeen s = Some seen"
    and "online s" and "\<not> online (presence_step e s)"
  shows "ESP_TIMEOUT_MS \<le> event_time e - seen"
  using assms by (cases e) (simp_all add: esp_tick_def esp_status_def Let_def split: if_splits)

lemma run_offline_stays:
  assumes "\<not> list_ex is_heartbeat evs" and "lastSeen s = Some seen"
    and "sorted (t # map event_time evs)" and "ESP_TIMEOUT_MS \<le> t - seen" and "\<not> online s"
  shows "\<not> online (presence_run evs s)"
  using assms
proof (induction evs arbitrary: s t)
  case Nil
  then show ?case by (simp add: presence_run_def)
next
  case (Cons e evs)
  from Cons.prems have nh: "\<not> is_heartbeat e" and rest: "\<not> list_ex is_heartbeat evs"
    and le: "t \<le> event_time e" and srt: "sorted (event_time e # map event_time evs)"
    by simp_all
  from le Cons.prems(4) have late: "ESP_TIMEOUT_MS \<le> event_time e - seen" by simp
  have off: "\<not> online (presence_step e s)"
    using nh Cons.prems(2) late Cons.prems(5) by (rule step_offline_stays)
  have seen: "lastSeen (presence_step e s) = Some seen"
    using nh Cons.prems(2) by (simp add: step_keeps_lastSeen)
  show ?case
    unfolding presence_run_Cons using rest seen srt late off by (rule Cons.IH)
qed

text \<open>Once a run has left the tracker offline, the clock is at least the timeout past lastSeen.\<close>

lemma run_offline_is_late:
  assumes "\<not> list_ex is_heartbeat evs" and "lastSeen s = Some seen"
    and "sorted (t # map event_time evs)" and "online s"
    and "\<not> online (presence_run evs s)"
  shows "ESP_TIMEOUT_MS \<le> last (t # map event_time evs) - seen"
  using assms
proof (induction evs arbitrary: s t)
  case Nil
  then show ?case by (simp add: presence_run_def)
next
  case (Cons e evs)
  from Cons.prems have nh: "\<not> is_heartbeat e" and rest: "\<not> list_ex is_heartbeat evs"
    and srt: "sorted (event_time e # map event_time evs)"
    by simp_all
  have seen: "lastSeen (presence_step e s) = Some seen"
    using nh Cons.prems(2) by (simp add: step_keeps_lastSeen)
  from Cons.prems(5) have off: "\<not> online (presence_run evs (presence_step e s))"
    by (simp add: presence_run_Cons)
  show ?case
  proof (cases "online (presence_step e s)")
    case True
    from Cons.IH [OF rest seen srt True off] show ?thesis by simp
  next
    case False
    have late: "ESP_TIMEOUT_MS \<le> event_time e - seen"
      using nh Cons.prems(2) Cons.prems(4) False by (rule step_goes_offline_late)
    from srt have "event_time e \<le> last (event_time e # map event_time evs)"
      by (rule sorted_head_le_last)
    with late show ?thesis by simp
  qed
qed


text \<open>
  Claim C9 says that after the timeout no transition back to online occurs except via a
  fresh heartbeat. The status query recomputes \<^verbatim>\<open>online\<close> from the clock each time: after a
  heartbeat at 1000, a query at 31000 reports offline, and a following query whose clock
  reading is 30999 reports online again, with no heartbeat in between.
\<close>

theorem presence_back_online_on_earlier_reading:
  "\<not> list_ex is_heartbeat [StatusQuery 31000, StatusQuery 30999]
   \<and> online example_online
   \<and> lastSeen example_online = Some 1000
   \<and> \<not> online (presence_run [StatusQuery 31000] example_online)
   \<and> online (presence_run [StatusQuery 31000, StatusQuery 30999] example_online)"
  by (simp add: presence_run_def example_online_def heartbeat_def esp_status_def
      ESP_TIMEOUT_MS_def)

lemma status_after_run:
  assumes "\<not> list_ex is_heartbeat evs" and "lastSeen s = Some seen"
  shows "online (esp_status now (presence_run evs s)) = (now - seen < 30000)"
    and "lastSeen (esp_status now (presence_run evs s)) = Some seen"
proof -
  from assms have "lastSeen (presence_run evs s) = Some seen"
    by (simp add: run_keeps_lastSeen)
  then show "online (esp_status now (presence_run evs s)) = (now - seen < 30000)"
    and "lastSeen (esp_status now (presence_run evs s)) = Some seen"
    by (simp_all add: esp_status_def Let_def ESP_TIMEOUT_MS_def)
qed

lemma tick_after_run:
  assumes "\<not> list_ex is_heartbeat evs" and "lastSeen s = Some seen"
  shows "online (esp_tick now (presence_run evs s))
           = (online (presence_run evs s) \<and> now - seen \<le> 30000)"
proof -
  from assms have "lastSeen (presence_run evs s) = Some seen"
    by (simp add: run_keeps_lastSeen)
  then show ?thesis
    by (auto simp: esp_tick_def Let_def ESP_TIMEOUT_MS_def)
qed

text \<open>
  Claim C9, as the code has it. A heartbeat at \<open>t0\<close> leaves the tracker online with
  \<^verbatim>\<open>lastSeen = t0\<close>. After any ticks and status queries without a further heartbeat, a
  status query at time \<open>now\<close> reports online exactly when \<open>now - t0 < 30000\<close>, and so offline
  once the elapsed time is 30000 ms or more; the tick forces offline only when the
  elapsed time exceeds 30000 ms. While the clock readings of the events do not decrease,
  a tracker that has gone offline stays offline through every further tick and status
  query: only a heartbeat brings it back.
\<close>

theorem presence_timeout:
  assumes "\<not> list_ex is_heartbeat (evs1 @ evs2)"
  shows "online (heartbeat t0 req_ip body s)
       \<and> lastSeen (heartbeat t0 req_ip body s) = Some t0
       \<and> online (esp_status now (presence_run evs1 (heartbeat t0 req_ip body s)))
           = (now - t0 < 30000)
       \<and> lastSeen (esp_status now (presence_run evs1 (heartbeat t0 req_ip body s))) = Some t0
       \<and> online (esp_tick now (presence_run evs1 (heartbeat t0 req_ip body s)))
           = (online (presence_run evs1 (heartbeat t0 req_ip body s)) \<and> now - t0 \<le> 30000)
       \<and> (sorted (t0 # map event_time (evs1 @ evs2)) \<longrightarrow>
            \<not> online (presence_run evs1 (heartbeat t0 req_ip body s)) \<longrightarrow>
            \<not> online (presence_run (evs1 @ evs2) (heartbeat t0 req_ip body s)))"
proof (intro conjI impI)
  let ?s0 = "heartbeat t0 req_ip body s"
  let ?s1 = "presence_run evs1 ?s0"
  from assms have nh1: "\<not> list_ex is_heartbeat evs1" and nh2: "\<not> list_ex is_heartbeat evs2"
    by simp_all
  have seen0: "lastSeen ?s0 = Some t0" by (rule heartbeat_online)
  have seen1: "lastSeen ?s1 = Some t0" using nh1 seen0 by (simp add: run_keeps_lastSeen)
  show "online ?s0" by (rule heartbeat_online)
  show "lastSeen ?s0 = Some t0" by (rule seen0)
  show "online (esp_status now ?s1) = (now - t0 < 30000)"
    using nh1 seen0 by (rule status_after_run)
  show "lastSeen (esp_status now ?s1) = Some t0"
    using nh1 seen0 by (rule status_after_run)
  show "online (esp_tick now ?s1) = (online ?s1 \<and> now - t0 \<le> 30000)"
    using nh1 seen0 by (rule tick_after_run)
  assume srt0: "sorted (t0 # map event_time (evs1 @ evs2))" and off: "\<not> online ?s1"
  from srt0 have srt1: "sorted (t0 # map event_time evs1)"
    and srt2: "sorted (map event_time evs2)"
    and cross: "\<forall>x \<in> set (t0 # map event_time evs1). \<forall>y \<in> set (map event_time evs2). x \<le> y"
    by (auto simp: sorted_append)
  let ?t1 = "last (t0 # map event_time evs1)"
  have "?t1 \<in> set (t0 # map event_time evs1)" by (rule last_in_set) simp
  with cross have "\<forall>y \<in> set (map event_time evs2). ?t1 \<le> y" by blast
  with srt2 have srt: "sorted (?t1 # map event_time evs2)" by simp
  have late: "ESP_TIMEOUT_MS \<le> ?t1 - t0"
    using nh1 seen0 srt1 heartbeat_online(1) off by (rule run_offline_is_late)
  have "\<not> online (presence_run evs2 ?s1)"
    using nh2 seen1 srt late off by (rule run_offline_stays)
  then show "\<not> online (presence_run (evs1 @ evs2) ?s0)" by (simp add: presence_run_append)
qed

theorem presence_timeout_witness:
  "\<not> list_ex is_heartbeat ([Tick 5000] @ [])
   \<and> online example_online \<and> lastSeen example_online = Some 1000
   \<and> online (esp_status 1001 (presence_run [Tick 5000] example_online))
   \<and> online (esp_status 30999 (presence_run [Tick 5000] example_online))
   \<and> \<not> online (esp_status 31000 (presence_run [Tick 5000] example_online))
   \<and> \<not> online (esp_status 31001 (presence_run [Tick 5000] example_online))
   \<and> online (esp_tick 31000 (presence_run [Tick 5000] example_online))
   \<and> \<not> online (esp_tick 31001 (presence_run [Tick 5000] example_online))
   \<and> \<not> list_ex is_heartbeat ([Tick 5000, StatusQuery 31000] @ [Tick 35000, StatusQuery 40000])
   \<and> sorted (1000 # map event_time ([Tick 5000, StatusQuery 31000] @ [Tick 35000, StatusQuery 40000]))
   \<and> \<not> online (presence_run [Tick 5000, StatusQuery 31000] example_online)
   \<and> \<not> online (presence_run ([Tick 5000, StatusQuery 31000] @ [Tick 35000, StatusQuery 40000])
          example_online)"
proof -
  have a: "\<not> list_ex is_heartbeat ([Tick 5000] @ [])" by simp
  have b: "\<not> list_ex is_heartbeat ([Tick 5000, StatusQuery 31000] @ [Tick 35000, StatusQuery 40000])"
    by simp
  have c: "sorted (1000 # map event_time ([Tick 5000, StatusQuery 31000] @ [Tick 35000, StatusQuery 40000]))"
    by simp
  have on: "online (presence_run [Tick 5000] example_online)"
    by (simp add: presence_run_def example_online_def heartbeat_def esp_tick_def ESP_TIMEOUT_MS_def)
  have off: "\<not> online (presence_run [Tick 5000, StatusQuery 31000] example_online)"
    by (simp add: presence_run_def example_online_def heartbeat_def esp_tick_def esp_status_def
        ESP_TIMEOUT_MS_def)
  note w = presence_timeout [where ?t0.0 = 1000 and req_ip = None and body = example_body
      and s = initial_esp32Status, folded example_online_def]
  note q1 = w [OF a, of 1001] and q2 = w [OF a, of 30999] and q3 = w [OF a, of 31000]
    and q4 = w [OF a, of 31001] and r = w [OF b, of 0]
  from q1 have 1: "online example_online" "lastSeen example_online = Some 1000"
    "online (esp_status 1001 (presence_run [Tick 5000] example_online))" by simp_all
  from q2 have 2: "online (esp_status 30999 (presence_run [Tick 5000] example_online))" by simp
  from q3 on have 3: "\<not> online (esp_status 31000 (presence_run [Tick 5000] example_online))"
    "online (esp_tick 31000 (presence_run [Tick 5000] example_online))" by simp_all
  from q4 have 4: "\<not> online (esp_status 31001 (presence_run [Tick 5000] example_online))"
    "\<not> online (esp_tick 31001 (presence_run [Tick 5000] example_online))" by simp_all
  from r c off have 5: "\<not> online (presence_run
      ([Tick 5000, StatusQuery 31000] @ [Tick 35000, StatusQuery 40000]) example_online)"
    by blast
  from a b c 1 2 3 4 5 off show ?thesis by blast
qed

section \<open>Starting a timer: identifiers and validation\<close>

text \<open>Distinct non-negative clock readings give distinct timer ids.\<close>

lemma digit_inj:
  "a < 10 \<Longrightarrow> b < 10 \<Longrightarrow> (''0123456789'' ! a = ''0123456789'' ! b) = (a = b)"
  by (simp add: nth_eq_iff_index_eq)

lemma dec_nat_small: "n < 10 \<Longrightarrow> dec_nat n = [''0123456789'' ! n]"
  by (subst dec_nat.simps) simp

lemma dec_nat_large:
  "\<not> n < 10 \<Longrightarrow> dec_nat n = dec_nat (n div 10) @ [''0123456789'' ! (n mod 10)]"
  by (subst dec_nat.simps) simp

lemma dec_nat_nonempty: "dec_nat n \<noteq> []" "[] \<noteq> dec_nat n"
  by (cases "n < 10"; simp add: dec_nat_small dec_nat_large)+

lemma dec_nat_inj: "dec_nat n = dec_nat m \<Longrightarrow> n = m"
proof (induction n arbitrary: m rule: dec_nat.induct)
  case (1 n)
  show ?case
  proof (cases "n < 10")
    case small: True
    show ?thesis
    proof (cases "m < 10")
      case True
      with small "1.prems" show ?thesis by (simp add: dec_nat_small digit_inj)
    next
      case False
      with small "1.prems" show ?thesis
        by (simp add: dec_nat_small dec_nat_large dec_nat_nonempty)
    qed
  next
    case large: False
    show ?thesis
    proof (cases "m < 10")
      case True
      with large "1.prems" show ?thesis
        by (simp add: dec_nat_small dec_nat_large dec_nat_nonempty)
    next
      case False
      with large "1.prems" have eq: "dec_nat (n div 10) = dec_nat (m div 10)"
        and d: "''0123456789'' ! (n mod 10) = ''0123456789'' ! (m mod 10)"
        by (simp_all add: dec_nat_large)
      from "1.IH" [OF large eq] have q: "n div 10 = m div 10" .
      from d have r: "n mod 10 = m mod 10" by (simp add: digit_inj)
      from q r show ?thesis by (metis div_mult_mod_eq)
    qed
  qed
qed

lemma make_timer_id_inj:
  "0 \<le> a \<Longrightarrow> 0 \<le> b \<Longrightarrow> (make_timer_id a = make_timer_id b) = (a = b)"
  by (auto simp: make_timer_id_def dec_int_def dest!: dec_nat_inj)

lemma make_timer_id_1000: "make_timer_id 1000 = ''timer_1000''"
  by (simp add: make_timer_id_def dec_int_def dec_nat.simps)

lemma validate_tv_direct:
  "validate_timer_request [''led1'', ''led2'', ''led3'']
     ''Invalid device names. Use led1, led2, led3.'' tv_request
   = Inl (ValidationError ''Invalid device names. Use led1, led2, led3.'')"
  by (simp add: validate_timer_request_def tv_request_def)

lemma validate_tv:
  "validate_timer_request [''led1'', ''led2'', ''led3'', ''tv'']
     ''Invalid device names. Use led1, led2, led3, tv.'' tv_request
   = Inr ([''tv''], 5, ''off'')"
  by (simp add: validate_timer_request_def tv_request_def)

text \<open>
  What the four checks accept and reject on a body whose duration is an integer number
  or missing, and what the watcher-driven route persists for an accepted request: one full replacement of the \<^verbatim>\<open>timer\<close> child, after the local
  countdowns are cleared.
\<close>

lemma validate_accepts:
  "validate_timer_request names msg req = Inr (devs, dur, act) \<longleftrightarrow>
     body_devices req = Some devs \<and> devs \<noteq> [] \<and> set devs \<subseteq> set names
     \<and> body_duration req = Some dur \<and> 1 \<le> dur \<and> dur \<le> 86400
     \<and> body_action req = Some act \<and> (act = ''on'' \<or> act = ''off'')"
  by (auto simp: validate_timer_request_def list_all_iff split: option.splits)

lemma validate_rejects:
  "isl (validate_timer_request names msg req) \<longleftrightarrow>
     (case body_devices req of None \<Rightarrow> True
        | Some devs \<Rightarrow> devs = [] \<or> \<not> set devs \<subseteq> set names)
     \<or> (case body_duration req of None \<Rightarrow> True | Some dur \<Rightarrow> dur < 1 \<or> 86400 < dur)
     \<or> (case body_action req of None \<Rightarrow> True | Some act \<Rightarrow> act \<noteq> ''on'' \<and> act \<noteq> ''off'')"
  by (auto simp: validate_timer_request_def list_all_iff split: option.splits)

lemma timer_start_persists:
  assumes "validate_timer_request [''led1'', ''led2'', ''led3'', ''tv'']
             ''Invalid device names. Use led1, led2, led3, tv.'' req = Inr (devs, dur, act)"
  shows "timer_start now_id now_started now_ends req st =
           Inr (make_timer_id now_id,
                \<lparr>activeTimers = Map.empty,
                 db = (db st)(''timer'' \<mapsto> JTimer
                   \<lparr>timer_id = make_timer_id now_id, devices = devs, duration = dur,
                    action = act, startedAt = now_started, endsAt = now_ends + dur * 1000,
                    active = True\<rparr>)\<rparr>)"
  using assms
  by (simp add: timer_start_def executeTimer_def clearAllTimers_def ref_set_def Let_def)

lemma timer_start_rejects:
  assumes "validate_timer_request [''led1'', ''led2'', ''led3'', ''tv'']
             ''Invalid device names. Use led1, led2, led3, tv.'' req = Inl e"
  shows "timer_start now_id now_started now_ends req st = Inl e"
  using assms by (simp add: timer_start_def)

text \<open>
  Claim C6 says that a scheduling request is rejected exactly when a field is missing or
  out of range or a device lies outside the known device set, and that a valid request
  persists a record with \<open>endsAt - startedAt = duration * 1000\<close>. Evaluated on the request
  \<^verbatim>\<open>{devices: ["tv"], duration: 5, action: "off"}\<close>: the route of \<^verbatim>\<open>src/server.js\<close> rejects
  it as an invalid device name, although the toggle route of the same file knows \<^verbatim>\<open>tv\<close>
  and the watcher-driven route accepts it. And when the clock advances by one millisecond
  between the two readings for \<^verbatim>\<open>startedAt\<close> and \<^verbatim>\<open>endsAt\<close>, the persisted record has
  \<open>endsAt - startedAt = 5001\<close> for a duration of 5 seconds.
\<close>

theorem timer_start_direct_rejects_tv:
  "timer_start_direct 1000 1000 1000 tv_request idle_server
     = Inl (ValidationError ''Invalid device names. Use led1, led2, led3.'')
   \<and> toggle ''tv'' example_doc = Inr (ref_set ''tv'' (Some (JBool True)) example_doc)
   \<and> timer_start 1000 1000 1001 tv_request idle_server
     = Inr (''timer_1000'', idle_server\<lparr>db := ref_set ''timer'' (Some (JTimer tv_timer)) example_doc\<rparr>)
   \<and> endsAt tv_timer - startedAt tv_timer = 5001
   \<and> duration tv_timer * 1000 = 5000"
proof -
  have 1: "timer_start_direct 1000 1000 1000 tv_request idle_server
     = Inl (ValidationError ''Invalid device names. Use led1, led2, led3.'')"
    by (simp add: timer_start_direct_def validate_tv_direct)
  have 2: "toggle ''tv'' example_doc = Inr (ref_set ''tv'' (Some (JBool True)) example_doc)"
    by (simp add: toggle_def example_doc_values)
  have 3: "timer_start 1000 1000 1001 tv_request idle_server
     = Inr (''timer_1000'', idle_server\<lparr>db := ref_set ''timer'' (Some (JTimer tv_timer)) example_doc\<rparr>)"
    by (simp add: timer_start_def validate_tv make_timer_id_1000 executeTimer_def
        clearAllTimers_def idle_server_def tv_timer_def Let_def)
  have 4: "endsAt tv_timer - startedAt tv_timer = 5001" "duration tv_timer * 1000 = 5000"
    by (simp_all add: tv_timer_def)
  from 1 2 3 4 show ?thesis by blast
qed

end
